theory Spec2Isabelle
  imports Main
begin

section \<open>The pull request tree data provider\<close>

text \<open>
  A shallow embedding of the class \<open>PullRequestsTreeDataProvider\<close> of
  \<^verbatim>\<open>src/view/prsTreeDataProvider.ts\<close>. The fields of the class are the fields of a
  record that every method takes and returns; a rejected promise or a thrown error is
  the \<open>Inl\<close> branch of a sum. The collaborators that live in other files (the data
  manager, the nodes' own child builders, the host's address resolution, the settings
  store) are read from an environment record, so that every theorem holds for whatever
  they answer.
\<close>

subsection \<open>Data of the collaborators\<close>

text \<open>
  Modelled from the spec: the declaration of \<open>PRManagerState\<close> is in
  \<^verbatim>\<open>folderPullRequestManager.ts\<close>, which is not at hand. Its three values are those of
  the spec's section 6; the provider names each of them (lines 57, 133 and 157).
\<close>

datatype PRManagerState = Initializing | NeedsAuthentication | RepositoriesLoaded

text \<open>
  Modelled from the spec: the declaration of \<open>PRCategoryActionType\<close> is in
  \<^verbatim>\<open>treeNodes/categoryNode.ts\<close>, which is not at hand. The values are the placeholder
  reasons of the spec's section 3 that the provider constructs (lines 140 to 183).
  \<open>PRCategoryActionType.Initializing\<close> is written \<open>InitializingAction\<close>, the name
  \<open>Initializing\<close> being taken by the manager's state.
\<close>

datatype PRCategoryActionType =
    Empty
  | NoRemotes
  | NoMatchingRemotes
  | ConfigureRemotes
  | InitializingAction
  | NoOpenFolder
  | NoGitRepositories

text \<open>
  A folder manager, as far as the provider reads it: \<open>repository.rootUri\<close>, the answer of
  \<open>getGitHubRemotes()\<close>, and \<open>repository.state.remotes\<close>. The two lists of remotes are
  separate fields, as they are separate reads in the source.
\<close>

record FolderPullRequestManager =
  rootUri :: string
  gitHubRemotes :: "string list"
  repositoryRemotes :: "string list"

record PullRequestManager =
  state :: PRManagerState
  folderManagers :: "FolderPullRequestManager list"

text \<open>
  The tree nodes. \<open>PRCategoryActionNode\<close> and \<open>WorkspaceFolderNode\<close> are the two classes the
  provider instantiates; the view handle and the telemetry sink they receive are the
  provider's own, shared by all of them, and are left out. \<open>CategoryTreeNode\<close> stands for
  the nodes built elsewhere (a label and the \<open>fetchNextPage\<close> flag).
\<close>

datatype TreeNode =
    PRCategoryActionNode PRCategoryActionType
  | WorkspaceFolderNode string FolderPullRequestManager bool
  | CategoryTreeNode string bool

text \<open>
  The handles kept in \<open>_disposables\<close> and \<open>_childrenDisposables\<close>. A tree node is itself a
  disposable: the source assigns a \<open>TreeNode[]\<close> to the \<open>Disposable[]\<close> field.
\<close>

datatype Disposable =
    TextDocumentContentProvider string
  | DecorationProviderRegistration
  | Command string
  | TreeView string
  | ConfigurationListener string
  | StateListener
  | RepositoriesListener FolderPullRequestManager
  | NodeDisposable TreeNode

datatype error = TreeAlreadyInitialized | Rejected string

record Uri =
  authority :: string

text \<open>
  What the provider reads from its surroundings:
  \<^item> \<open>workspaceFolders\<close>: \<open>vscode.workspace.workspaceFolders\<close>, undefined when no folder is open;
  \<^item> \<open>showInSCM\<close>: the setting read once by the constructor;
  \<^item> \<open>remotesSetting\<close>: the value of the remotes setting, undefined when absent (an array,
    even an empty one, is truthy in the source's test);
  \<^item> \<open>uriScheme\<close>: \<open>vscode.env.uriScheme\<close>;
  \<^item> \<open>asExternalUri\<close>: the outcome of the \<open>k\<close>-th address resolution the provider asks for,
    on the address given: the resolved address, or a rejection;
  \<^item> \<open>getCategoryTreeNodes\<close>: the static builder of \<open>WorkspaceFolderNode\<close>;
  \<^item> \<open>nodeGetChildren\<close>: a node's own \<open>getChildren\<close>.
\<close>

record Env =
  workspaceFolders :: "string list option"
  showInSCM :: "bool option"
  remotesSetting :: "string list option"
  uriScheme :: string
  asExternalUri :: "nat \<Rightarrow> string \<Rightarrow> error + Uri"
  getCategoryTreeNodes :: "FolderPullRequestManager \<Rightarrow> bool \<Rightarrow> error + TreeNode list"
  nodeGetChildren :: "TreeNode \<Rightarrow> error + TreeNode list"

subsection \<open>The provider's state\<close>

text \<open>
  The fields \<open>_disposables\<close>, \<open>_childrenDisposables\<close>, \<open>_view\<close>, \<open>_prManager\<close>, \<open>_initialized\<close>
  and \<open>_isVSO\<close> (here \<open>cachedIsVSO\<close>), followed by three observation fields that the
  source does not have and no method reads: the handles on which \<open>dispose()\<close> was
  called, in order; the payloads fired on \<open>_onDidChangeTreeData\<close>, in order; and the
  number of address resolutions asked for so far.
\<close>

record Provider =
  disposables :: "Disposable list"
  childrenDisposables :: "Disposable list"
  view :: string
  prManager :: "PullRequestManager option"
  initialized :: bool
  cachedIsVSO :: "bool option"
  disposeLog :: "Disposable list"
  firedEvents :: "TreeNode option list"
  probeCount :: nat

definition SETTINGS_NAMESPACE :: string where
  "SETTINGS_NAMESPACE = ''githubPullRequests''"

definition QUERIES_SETTING :: string where
  "QUERIES_SETTING = ''queries''"

text \<open>The constructor (lines 32 to 81).\<close>

definition constructor :: "Env \<Rightarrow> Provider" where
  "constructor env =
     (let treeId = (if showInSCM env = Some True then ''pr:scm'' else ''pr:github'')
      in \<lparr>disposables =
            [TextDocumentContentProvider ''pr'',
             DecorationProviderRegistration,
             Command ''pr.refreshList'',
             Command ''pr.loadMore'',
             TreeView treeId,
             Command ''pr.configurePRViewlet'',
             ConfigurationListener (SETTINGS_NAMESPACE @ ''.fileListLayout'')],
          childrenDisposables = [],
          view = treeId,
          prManager = None,
          initialized = False,
          cachedIsVSO = None,
          disposeLog = [],
          firedEvents = [],
          probeCount = 0\<rparr>)"

subsection \<open>The methods\<close>

text \<open>\<open>refresh\<close> (lines 124 to 126): a node is always truthy, so the test is on its presence.\<close>

definition refresh :: "TreeNode option \<Rightarrow> Provider \<Rightarrow> Provider" where
  "refresh node s = s\<lparr>firedEvents := firedEvents s @ [node]\<rparr>"

text \<open>\<open>initializeCategories\<close> (lines 116 to 122).\<close>

definition initializeCategories :: "Provider \<Rightarrow> Provider" where
  "initializeCategories s =
     s\<lparr>disposables := disposables s @
          [ConfigurationListener (SETTINGS_NAMESPACE @ ''.'' @ QUERIES_SETTING)]\<rparr>"

text \<open>\<open>initialize\<close> (lines 83 to 100).\<close>

definition initialize :: "PullRequestManager \<Rightarrow> Provider \<Rightarrow> (error + unit) \<times> Provider" where
  "initialize pm s =
     (if initialized s then (Inl TreeAlreadyInitialized, s)
      else
        let s1 = s\<lparr>initialized := True\<rparr>;
            s2 = s1\<lparr>prManager := Some pm\<rparr>;
            s3 = s2\<lparr>disposables := disposables s2 @ [StateListener]\<rparr>;
            s4 = s3\<lparr>disposables := disposables s3 @ map RepositoriesListener (folderManagers pm)\<rparr>;
            s5 = initializeCategories s4;
            s6 = refresh None s5
        in (Inr (), s6))"

text \<open>\<open>String.prototype.endsWith\<close>.\<close>

definition endsWith :: "string \<Rightarrow> string \<Rightarrow> bool" where
  "endsWith str suffix =
     (length suffix \<le> length str \<and> drop (length str - length suffix) str = suffix)"

text \<open>
  \<open>isVSO\<close> (lines 102 to 114). A rejection of the awaited resolution leaves the function at
  line 107, before the assignment of line 112.
\<close>

definition isVSO :: "Env \<Rightarrow> Provider \<Rightarrow> (error + bool) \<times> Provider" where
  "isVSO env s =
     (case cachedIsVSO s of
        Some b \<Rightarrow> (Inr b, s)
      | None \<Rightarrow>
         (let s1 = s\<lparr>probeCount := Suc (probeCount s)\<rparr>
          in case asExternalUri env (probeCount s) (uriScheme env @ ''://vscode.github-authentication'') of
               Inl e \<Rightarrow> (Inl e, s1)
             | Inr callbackUri \<Rightarrow>
                (let b = (endsWith (authority callbackUri) ''workspaces.github.com''
                          \<or> endsWith (authority callbackUri) ''workspaces-dev.github.com''
                          \<or> endsWith (authority callbackUri) ''workspaces-ppe.github.com'')
                 in (Inr b, s1\<lparr>cachedIsVSO := Some b\<rparr>))))"

text \<open>
  \<open>needsRemotes\<close> (lines 132 to 146). It is private and called from line 162 only, where
  the manager is attached; the model receives that manager.
\<close>

definition needsRemotes :: "Env \<Rightarrow> PullRequestManager \<Rightarrow> TreeNode list" where
  "needsRemotes env pm =
     (if state pm = NeedsAuthentication then []
      else if remotesSetting env \<noteq> None then
        [PRCategoryActionNode NoMatchingRemotes, PRCategoryActionNode ConfigureRemotes]
      else [PRCategoryActionNode NoRemotes])"

text \<open>The release of the tracked children (lines 166 to 168).\<close>

definition disposeChildren :: "Provider \<Rightarrow> Provider" where
  "disposeChildren s =
     (if length (childrenDisposables s) \<noteq> 0
      then s\<lparr>disposeLog := disposeLog s @ childrenDisposables s\<rparr>
      else s)"

text \<open>
  The root branch of \<open>getChildren\<close> (lines 165 to 180). With one folder manager the
  builder's promise is returned at line 172 and line 178 is not reached.
\<close>

definition resolveRoots ::
  "Env \<Rightarrow> PullRequestManager \<Rightarrow> Provider \<Rightarrow> (error + TreeNode list) \<times> Provider" where
  "resolveRoots env pm s =
     (let s1 = disposeChildren s
      in if length (folderManagers pm) = 1 then
           (case isVSO env s1 of
              (Inl e, s2) \<Rightarrow> (Inl e, s2)
            | (Inr isVso, s2) \<Rightarrow> (getCategoryTreeNodes env (folderManagers pm ! 0) isVso, s2))
         else
           (case isVSO env s1 of
              (Inl e, s2) \<Rightarrow> (Inl e, s2)
            | (Inr isVso, s2) \<Rightarrow>
               (let result = map (\<lambda>folderManager.
                                    WorkspaceFolderNode (rootUri folderManager) folderManager isVso)
                                 (folderManagers pm)
                in (Inr result, s2\<lparr>childrenDisposables := map NodeDisposable result\<rparr>))))"

text \<open>\<open>getChildren\<close> (lines 148 to 187).\<close>

definition getChildren ::
  "Env \<Rightarrow> TreeNode option \<Rightarrow> Provider \<Rightarrow> (error + TreeNode list) \<times> Provider" where
  "getChildren env element s =
     (case prManager s of
        None \<Rightarrow>
          (if workspaceFolders env = None
           then (Inr [PRCategoryActionNode NoOpenFolder], s)
           else (Inr [PRCategoryActionNode NoGitRepositories], s))
      | Some pm \<Rightarrow>
          if state pm = Initializing then (Inr [PRCategoryActionNode InitializingAction], s)
          else if length (filter (\<lambda>manager. length (gitHubRemotes manager) > 0)
                                 (folderManagers pm)) = 0
          then (Inr (needsRemotes env pm), s)
          else
            (case element of
               None \<Rightarrow> resolveRoots env pm s
             | Some el \<Rightarrow>
                 if length (filter (\<lambda>manager. length (repositoryRemotes manager) > 0)
                                   (folderManagers pm)) = 0
                 then (Inr [PRCategoryActionNode Empty], s)
                 else (nodeGetChildren env el, s)))"

text \<open>\<open>dispose\<close> (lines 193 to 195).\<close>

definition dispose :: "Provider \<Rightarrow> Provider" where
  "dispose s = s\<lparr>disposeLog := disposeLog s @ disposables s\<rparr>"

subsection \<open>Sequences of calls\<close>

text \<open>The public methods, called one after the other on the same provider.\<close>

datatype Call =
    Initialize PullRequestManager
  | Refresh "TreeNode option"
  | GetChildren "TreeNode option"
  | Dispose

fun call :: "Env \<Rightarrow> Call \<Rightarrow> Provider \<Rightarrow> Provider" where
  "call env (Initialize pm) s = snd (initialize pm s)"
| "call env (Refresh node) s = refresh node s"
| "call env (GetChildren element) s = snd (getChildren env element s)"
| "call env Dispose s = dispose s"

fun run :: "Env \<Rightarrow> Call list \<Rightarrow> Provider \<Rightarrow> Provider" where
  "run env [] s = s"
| "run env (c # cs) s = run env cs (call env c s)"

text \<open>\<open>n\<close> calls of \<open>isVSO\<close> in a row: the answers in order, and the state they leave.\<close>

fun isVSO_repeat :: "Env \<Rightarrow> nat \<Rightarrow> Provider \<Rightarrow> (error + bool) list \<times> Provider" where
  "isVSO_repeat env 0 s = ([], s)"
| "isVSO_repeat env (Suc n) s =
     (case isVSO env s of
        (r, s1) \<Rightarrow> (case isVSO_repeat env n s1 of (rs, s2) \<Rightarrow> (r # rs, s2)))"

text \<open>\<open>n\<close> root-level passes (\<open>getChildren\<close> with no element) in a row.\<close>

fun rootPasses ::
  "Env \<Rightarrow> nat \<Rightarrow> Provider \<Rightarrow> (error + TreeNode list) list \<times> Provider" where
  "rootPasses env 0 s = ([], s)"
| "rootPasses env (Suc n) s =
     (case getChildren env None s of
        (r, s1) \<Rightarrow> (case rootPasses env n s1 of (rs, s2) \<Rightarrow> (r # rs, s2)))"

subsection \<open>Concrete workspaces\<close>

text \<open>
  A folder whose repository has a GitHub remote, a folder with no remote at all, and a
  folder for which the manager still lists a GitHub remote while the repository state
  lists none.
\<close>

definition appFolder :: FolderPullRequestManager where
  "appFolder =
     \<lparr>rootUri = ''file:///work/app'', gitHubRemotes = [''origin''],
      repositoryRemotes = [''origin'']\<rparr>"

definition notesFolder :: FolderPullRequestManager where
  "notesFolder =
     \<lparr>rootUri = ''file:///work/notes'', gitHubRemotes = [], repositoryRemotes = []\<rparr>"

definition staleFolder :: FolderPullRequestManager where
  "staleFolder =
     \<lparr>rootUri = ''file:///work/stale'', gitHubRemotes = [''origin''],
      repositoryRemotes = []\<rparr>"

definition categories :: "TreeNode list" where
  "categories =
     [CategoryTreeNode ''Waiting For My Review'' False,
      CategoryTreeNode ''Created By Me'' False]"

text \<open>A desktop host: the callback address resolves to itself.\<close>

definition desktopEnv :: Env where
  "desktopEnv =
     \<lparr>workspaceFolders = Some [''file:///work/app'', ''file:///work/notes''],
      showInSCM = None,
      remotesSetting = Some [''origin'', ''upstream''],
      uriScheme = ''vscode'',
      asExternalUri = (\<lambda>k address. Inr \<lparr>authority = ''vscode.github-authentication''\<rparr>),
      getCategoryTreeNodes = (\<lambda>folderManager isVso. Inr categories),
      nodeGetChildren = (\<lambda>node. Inr [CategoryTreeNode ''All'' False])\<rparr>"

text \<open>A host whose address resolution rejects.\<close>

definition offlineEnv :: Env where
  "offlineEnv = desktopEnv\<lparr>asExternalUri := (\<lambda>k address. Inl (Rejected ''tunnel''))\<rparr>"

text \<open>A host whose first resolution rejects and whose later ones land in a hosted workspace.\<close>

definition flakyEnv :: Env where
  "flakyEnv =
     desktopEnv\<lparr>asExternalUri :=
       (\<lambda>k address. if k = 0 then Inl (Rejected ''tunnel'')
                     else Inr \<lparr>authority = ''abc.workspaces.github.com''\<rparr>)\<rparr>"

definition attached :: "PullRequestManager \<Rightarrow> Provider" where
  "attached pm = snd (initialize pm (constructor desktopEnv))"

definition mixedManager :: PullRequestManager where
  "mixedManager = \<lparr>state = RepositoriesLoaded, folderManagers = [appFolder, notesFolder]\<rparr>"

definition singleManager :: PullRequestManager where
  "singleManager = \<lparr>state = RepositoriesLoaded, folderManagers = [appFolder]\<rparr>"

definition bareManager :: PullRequestManager where
  "bareManager = \<lparr>state = RepositoriesLoaded, folderManagers = [notesFolder]\<rparr>"

definition staleManager :: PullRequestManager where
  "staleManager = \<lparr>state = RepositoriesLoaded, folderManagers = [staleFolder]\<rparr>"

definition startingManager :: PullRequestManager where
  "startingManager = \<lparr>state = Initializing, folderManagers = [appFolder, notesFolder]\<rparr>"

definition trackedProvider :: Provider where
  "trackedProvider = snd (getChildren desktopEnv None (attached mixedManager))"

text \<open>
  The three guards of lines 149, 157 and 161, under which \<open>getChildren\<close> answers with
  placeholders (or with nothing) before it looks at its argument.
\<close>

definition returnsPlaceholder :: "Provider \<Rightarrow> bool" where
  "returnsPlaceholder s =
     (case prManager s of
        None \<Rightarrow> True
      | Some pm \<Rightarrow>
          state pm = Initializing
          \<or> length (filter (\<lambda>manager. length (gitHubRemotes manager) > 0)
                            (folderManagers pm)) = 0)"

section \<open>Properties\<close>

subsection \<open>Auxiliary facts\<close>

lemma initialize_when_initialized:
  "initialized s \<Longrightarrow> initialize pm s = (Inl TreeAlreadyInitialized, s)"
  by (simp add: initialize_def)

lemma initialize_sets_flag: "initialize pm s = (Inr u, s1) \<Longrightarrow> initialized s1"
  by (auto simp add: initialize_def initializeCategories_def refresh_def Let_def split: if_splits)

lemma isVSO_initialized: "initialized (snd (isVSO env s)) = initialized s"
  by (auto simp add: isVSO_def Let_def split: option.splits sum.splits)

lemma disposeChildren_initialized: "initialized (disposeChildren s) = initialized s"
  by (simp add: disposeChildren_def)

lemma resolveRoots_initialized: "initialized (snd (resolveRoots env pm s)) = initialized s"
  using isVSO_initialized [of env "disposeChildren s"]
  by (auto simp add: resolveRoots_def Let_def disposeChildren_initialized
      split: prod.splits sum.splits)

lemma getChildren_initialized: "initialized (snd (getChildren env el s)) = initialized s"
  by (auto simp add: getChildren_def resolveRoots_initialized split: option.splits)

lemma call_initialized: "initialized s \<Longrightarrow> initialized (call env c s)"
  by (cases c)
    (simp_all add: initialize_when_initialized refresh_def getChildren_initialized dispose_def)

lemma run_initialized: "initialized s \<Longrightarrow> initialized (run env cs s)"
  by (induction cs arbitrary: s) (simp_all add: call_initialized)

lemma isVSO_cached: "cachedIsVSO s = Some b \<Longrightarrow> isVSO env s = (Inr b, s)"
  by (simp add: isVSO_def)

lemma isVSO_success_caches: "isVSO env s = (Inr b, s1) \<Longrightarrow> cachedIsVSO s1 = Some b"
  by (auto simp add: isVSO_def Let_def split: option.splits sum.splits)

lemma isVSO_probes_once: "probeCount (snd (isVSO env s)) \<le> Suc (probeCount s)"
  by (auto simp add: isVSO_def Let_def split: option.splits sum.splits)

lemma isVSO_repeat_cached:
  "cachedIsVSO s = Some b \<Longrightarrow> isVSO_repeat env n s = (replicate n (Inr b), s)"
  by (induction n) (simp_all add: isVSO_cached)

lemma isVSO_repeat_add:
  "isVSO_repeat env (i + n) s =
     (case isVSO_repeat env i s of
        (rs, s0) \<Rightarrow> (case isVSO_repeat env n s0 of (rs', s') \<Rightarrow> (rs @ rs', s')))"
  by (induction i arbitrary: s) (simp_all split: prod.splits)

lemma isVSO_disposeChildren:
  "isVSO env (disposeChildren s) =
     (fst (isVSO env s),
      if length (childrenDisposables s) \<noteq> 0
      then (snd (isVSO env s))\<lparr>disposeLog := disposeLog s @ childrenDisposables s\<rparr>
      else snd (isVSO env s))"
  by (auto simp add: isVSO_def disposeChildren_def Let_def split: option.splits sum.splits)

lemma getChildren_past_gates:
  assumes "prManager s = Some pm" and "state pm \<noteq> Initializing"
      and "\<exists>m\<in>set (folderManagers pm). gitHubRemotes m \<noteq> []"
    shows "getChildren env None s = resolveRoots env pm s"
      and "getChildren env (Some el) s =
             (if \<forall>m\<in>set (folderManagers pm). repositoryRemotes m = []
              then (Inr [PRCategoryActionNode Empty], s)
              else (nodeGetChildren env el, s))"
  using assms by (auto simp add: getChildren_def filter_empty_conv)

lemma resolveRoots_result:
  "fst (isVSO env s) = Inr v \<Longrightarrow>
     fst (resolveRoots env pm s) =
       (if length (folderManagers pm) = 1
        then getCategoryTreeNodes env (folderManagers pm ! 0) v
        else Inr (map (\<lambda>folderManager.
                         WorkspaceFolderNode (rootUri folderManager) folderManager v)
                      (folderManagers pm)))"
  by (auto simp add: resolveRoots_def isVSO_disposeChildren Let_def split: prod.splits sum.splits)

lemma attached_fields:
  "prManager (attached pm) = Some pm"
  "initialized (attached pm)"
  "cachedIsVSO (attached pm) = None"
  "probeCount (attached pm) = 0"
  "childrenDisposables (attached pm) = []"
  "disposeLog (attached pm) = []"
  by (simp_all add: attached_def initialize_def constructor_def initializeCategories_def
      refresh_def Let_def)

subsection \<open>Initialization\<close>

text \<open>
  Claim C8. Once \<open>initialize\<close> has succeeded on a provider, every later call of
  \<open>initialize\<close> on it fails with the error of line 85, whatever public methods were called
  in between and whatever manager is passed: the call is never silently accepted.
\<close>

theorem initialize_second_call_throws:
  "initialize pm s = (Inr u, s1) \<Longrightarrow>
     initialize pm' (run env calls s1) = (Inl TreeAlreadyInitialized, run env calls s1)"
  by (simp add: initialize_when_initialized run_initialized initialize_sets_flag)

text \<open>A provider attached to one folder, three calls later.\<close>

theorem initialize_second_call_throws_witness:
  "initialize singleManager (constructor desktopEnv) = (Inr (), attached singleManager)
   \<and> initialize mixedManager
        (run desktopEnv [GetChildren None, Refresh None, Dispose] (attached singleManager))
       = (Inl TreeAlreadyInitialized,
          run desktopEnv [GetChildren None, Refresh None, Dispose] (attached singleManager))"
proof -
  have h: "initialize singleManager (constructor desktopEnv) = (Inr (), attached singleManager)"
    by (simp add: attached_def initialize_def constructor_def Let_def)
  have "initialize mixedManager
          (run desktopEnv [GetChildren None, Refresh None, Dispose] (attached singleManager))
        = (Inl TreeAlreadyInitialized,
           run desktopEnv [GetChildren None, Refresh None, Dispose] (attached singleManager))"
    by (rule initialize_second_call_throws [OF h])
  with h show ?thesis ..
qed

text \<open>
  Claim C10. When \<open>initialize\<close> fails because the provider is already initialized, it
  returns the provider as it received it: the attached manager, the list of
  subscriptions, the flag and every other field are unchanged, and nothing is fired on
  the change event (the fired payloads are a field of the record).
\<close>

theorem initialize_again_changes_nothing:
  "initialized s \<Longrightarrow> initialize pm s = (Inl TreeAlreadyInitialized, s)"
  by (simp add: initialize_def)

text \<open>A provider attached to one folder is initialized, and a second manager is refused.\<close>

theorem initialize_again_changes_nothing_witness:
  "initialized (attached singleManager)
   \<and> initialize mixedManager (attached singleManager)
       = (Inl TreeAlreadyInitialized, attached singleManager)"
proof -
  have h: "initialized (attached singleManager)"
    by (rule attached_fields)
  from initialize_again_changes_nothing [OF h, of mixedManager] h show ?thesis by simp
qed

subsection \<open>The environment classification\<close>

text \<open>
  Claim C6. Take any run of calls of \<open>isVSO\<close>, one after the other: \<open>i\<close> calls that do not
  matter here, then the first call that resolves, with answer \<open>b\<close>, then \<open>n\<close> more calls.
  From the resolving call on every call answers \<open>b\<close>, and the run ends in the state
  that call left, so that from it on the address resolution was asked for at most once.
\<close>

theorem isVSO_answers_from_cache:
  assumes "isVSO_repeat env i s = (rs, s0)"
      and "isVSO env s0 = (Inr b, s1)"
    shows "isVSO_repeat env (i + Suc n) s = (rs @ replicate (Suc n) (Inr b), s1)
         \<and> probeCount s1 \<le> Suc (probeCount s0)"
proof -
  have later: "isVSO_repeat env (Suc n) s0 = (replicate (Suc n) (Inr b), s1)"
    using assms(2) by (simp add: isVSO_repeat_cached isVSO_success_caches)
  have "isVSO_repeat env (i + Suc n) s = (rs @ replicate (Suc n) (Inr b), s1)"
    by (simp only: isVSO_repeat_add [of env i "Suc n" s] assms(1) later prod.case)
  moreover have "probeCount s1 \<le> Suc (probeCount s0)"
    using isVSO_probes_once [of env s0] assms(2) by simp
  ultimately show ?thesis ..
qed

text \<open>
  A host whose first resolution rejects: the first call fails, the second resolves to
  \<open>True\<close> with the second resolution, and two more calls add none.
\<close>

theorem isVSO_answers_from_cache_witness:
  "isVSO_repeat flakyEnv 1 (attached singleManager)
     = ([Inl (Rejected ''tunnel'')], (attached singleManager)\<lparr>probeCount := 1\<rparr>)
   \<and> isVSO flakyEnv ((attached singleManager)\<lparr>probeCount := 1\<rparr>)
     = (Inr True, (attached singleManager)\<lparr>cachedIsVSO := Some True, probeCount := 2\<rparr>)
   \<and> isVSO_repeat flakyEnv (1 + Suc 2) (attached singleManager)
     = ([Inl (Rejected ''tunnel'')] @ replicate (Suc 2) (Inr True),
        (attached singleManager)\<lparr>cachedIsVSO := Some True, probeCount := 2\<rparr>)
   \<and> probeCount ((attached singleManager)\<lparr>cachedIsVSO := Some True, probeCount := 2\<rparr>)
       \<le> Suc (probeCount ((attached singleManager)\<lparr>probeCount := 1\<rparr>))"
proof -
  have h1: "isVSO_repeat flakyEnv 1 (attached singleManager)
     = ([Inl (Rejected ''tunnel'')], (attached singleManager)\<lparr>probeCount := 1\<rparr>)"
    by (simp add: attached_fields isVSO_def flakyEnv_def Let_def)
  have h2: "isVSO flakyEnv ((attached singleManager)\<lparr>probeCount := 1\<rparr>)
     = (Inr True, (attached singleManager)\<lparr>cachedIsVSO := Some True, probeCount := 2\<rparr>)"
    by (simp add: attached_fields isVSO_def flakyEnv_def endsWith_def Let_def)
  from isVSO_answers_from_cache [OF h1 h2, of 2] h1 h2 show ?thesis by blast
qed

text \<open>
  Claim C7. When nothing is cached and the address resolution rejects, \<open>isVSO\<close> fails
  with that rejection and caches nothing, so the next call asks for the resolution
  again (the count of resolutions goes up by two over the two calls) instead of
  answering from a cache.
\<close>

theorem isVSO_rejection_not_cached:
  assumes "cachedIsVSO s = None"
      and "asExternalUri env (probeCount s) (uriScheme env @ ''://vscode.github-authentication'')
             = Inl e"
    shows "fst (isVSO env s) = Inl e
         \<and> cachedIsVSO (snd (isVSO env s)) = None
         \<and> probeCount (snd (isVSO env (snd (isVSO env s)))) = probeCount s + 2"
  using assms by (auto simp add: isVSO_def Let_def split: sum.splits)

text \<open>A host whose first resolution rejects.\<close>

theorem isVSO_rejection_not_cached_witness:
  "cachedIsVSO (attached singleManager) = None
   \<and> asExternalUri flakyEnv (probeCount (attached singleManager))
        (uriScheme flakyEnv @ ''://vscode.github-authentication'') = Inl (Rejected ''tunnel'')
   \<and> fst (isVSO flakyEnv (attached singleManager)) = Inl (Rejected ''tunnel'')
   \<and> cachedIsVSO (snd (isVSO flakyEnv (attached singleManager))) = None
   \<and> probeCount (snd (isVSO flakyEnv (snd (isVSO flakyEnv (attached singleManager)))))
       = probeCount (attached singleManager) + 2"
proof -
  have h1: "cachedIsVSO (attached singleManager) = None"
    by (rule attached_fields)
  have h2: "asExternalUri flakyEnv (probeCount (attached singleManager))
        (uriScheme flakyEnv @ ''://vscode.github-authentication'') = Inl (Rejected ''tunnel'')"
    by (simp add: attached_fields flakyEnv_def)
  from isVSO_rejection_not_cached [OF h1 h2] h1 h2 show ?thesis by blast
qed

subsection \<open>Root resolution\<close>

text \<open>
  Claim C3. With a manager attached whose state is not \<open>Initializing\<close> and none of whose
  folder managers reports a GitHub remote, \<open>getChildren\<close> (with or without an element)
  answers with the list of \<open>needsRemotes\<close> and leaves the provider unchanged: nothing
  when the state is \<open>NeedsAuthentication\<close>; otherwise \<open>NoMatchingRemotes\<close> followed by
  \<open>ConfigureRemotes\<close> when the remotes setting has a value; otherwise \<open>NoRemotes\<close> alone.
\<close>

theorem getChildren_needs_remotes:
  assumes "prManager s = Some pm"
      and "state pm \<noteq> Initializing"
      and "\<forall>m\<in>set (folderManagers pm). gitHubRemotes m = []"
    shows "getChildren env element s =
             (Inr (if state pm = NeedsAuthentication then []
                   else if remotesSetting env \<noteq> None
                   then [PRCategoryActionNode NoMatchingRemotes,
                         PRCategoryActionNode ConfigureRemotes]
                   else [PRCategoryActionNode NoRemotes]),
              s)"
  using assms by (simp add: getChildren_def needsRemotes_def filter_empty_conv)

text \<open>
  One folder without any remote, in each of the three cases: the setting present, the
  setting absent, and the manager waiting for authentication.
\<close>

theorem getChildren_needs_remotes_witness:
  "prManager (attached bareManager) = Some bareManager
   \<and> state bareManager \<noteq> Initializing
   \<and> concat (map gitHubRemotes (folderManagers bareManager)) = []
   \<and> getChildren desktopEnv None (attached bareManager)
       = (Inr [PRCategoryActionNode NoMatchingRemotes, PRCategoryActionNode ConfigureRemotes],
          attached bareManager)
   \<and> getChildren (desktopEnv\<lparr>remotesSetting := None\<rparr>) None (attached bareManager)
       = (Inr [PRCategoryActionNode NoRemotes], attached bareManager)
   \<and> getChildren desktopEnv None (attached (bareManager\<lparr>state := NeedsAuthentication\<rparr>))
       = (Inr [], attached (bareManager\<lparr>state := NeedsAuthentication\<rparr>))"
proof -
  have h1: "prManager (attached bareManager) = Some bareManager"
    by (rule attached_fields)
  have h2: "state bareManager \<noteq> Initializing"
    by (simp add: bareManager_def)
  have h3: "\<forall>m\<in>set (folderManagers bareManager). gitHubRemotes m = []"
    by (simp add: bareManager_def notesFolder_def)
  have h4: "prManager (attached (bareManager\<lparr>state := NeedsAuthentication\<rparr>))
             = Some (bareManager\<lparr>state := NeedsAuthentication\<rparr>)"
    by (rule attached_fields)
  have h5: "state (bareManager\<lparr>state := NeedsAuthentication\<rparr>) \<noteq> Initializing"
    by simp
  have h6: "\<forall>m\<in>set (folderManagers (bareManager\<lparr>state := NeedsAuthentication\<rparr>)).
              gitHubRemotes m = []"
    using h3 by simp
  have r: "remotesSetting desktopEnv \<noteq> None"
          "remotesSetting (desktopEnv\<lparr>remotesSetting := None\<rparr>) = None"
    by (simp_all add: desktopEnv_def)
  have m: "concat (map gitHubRemotes (folderManagers bareManager)) = []"
    by (simp add: bareManager_def notesFolder_def)
  from getChildren_needs_remotes [OF h1 h2 h3, of desktopEnv None]
       getChildren_needs_remotes [OF h1 h2 h3, of "desktopEnv\<lparr>remotesSetting := None\<rparr>" None]
       getChildren_needs_remotes [OF h4 h5 h6, of desktopEnv None]
       h1 h2 m r
  show ?thesis by (simp add: bareManager_def)
qed

text \<open>
  Claim C1, as stated, fails. On a root-level pass over a workspace whose only folder
  has no remote of any kind the answer is the pair of \<open>needsRemotes\<close>; and where the
  manager lists a GitHub remote for a folder whose repository state lists none, the
  root-level pass answers with that folder's category nodes. Neither is the \<open>Empty\<close>
  placeholder.
\<close>

theorem getChildren_root_Empty_counterexample:
  "prManager (attached bareManager) = Some bareManager
   \<and> concat (map repositoryRemotes (folderManagers bareManager)) = []
   \<and> fst (getChildren desktopEnv None (attached bareManager))
       = Inr [PRCategoryActionNode NoMatchingRemotes, PRCategoryActionNode ConfigureRemotes]
   \<and> prManager (attached staleManager) = Some staleManager
   \<and> concat (map repositoryRemotes (folderManagers staleManager)) = []
   \<and> fst (getChildren desktopEnv None (attached staleManager)) = Inr categories
   \<and> Inr categories \<noteq> (Inr [PRCategoryActionNode Empty] :: error + TreeNode list)"
  by (simp add: attached_def bareManager_def staleManager_def notesFolder_def staleFolder_def
      desktopEnv_def categories_def constructor_def initialize_def initializeCategories_def
      refresh_def getChildren_def needsRemotes_def resolveRoots_def disposeChildren_def
      isVSO_def endsWith_def Let_def)

text \<open>
  Claim C1, amended. The override by \<open>Empty\<close> belongs to the calls with an element: with a
  manager attached whose state is not \<open>Initializing\<close>, some folder manager reporting a
  GitHub remote and no folder manager's repository state listing any remote,
  \<open>getChildren\<close> on an element answers with the single \<open>Empty\<close> placeholder and leaves the
  provider unchanged. A root-level pass in the same state is the root branch of lines
  165 to 180, whose roots are returned as they are.
\<close>

theorem getChildren_Empty_below_root:
  assumes "prManager s = Some pm"
      and "state pm \<noteq> Initializing"
      and "\<exists>m\<in>set (folderManagers pm). gitHubRemotes m \<noteq> []"
      and "\<forall>m\<in>set (folderManagers pm). repositoryRemotes m = []"
    shows "getChildren env (Some el) s = (Inr [PRCategoryActionNode Empty], s)
         \<and> getChildren env None s = resolveRoots env pm s"
  using assms by (auto simp add: getChildren_def filter_empty_conv)

text \<open>The folder whose repository state lists no remote while the manager lists one.\<close>

theorem getChildren_Empty_below_root_witness:
  "prManager (attached staleManager) = Some staleManager
   \<and> state staleManager \<noteq> Initializing
   \<and> concat (map gitHubRemotes (folderManagers staleManager)) = [''origin'']
   \<and> concat (map repositoryRemotes (folderManagers staleManager)) = []
   \<and> getChildren desktopEnv (Some (CategoryTreeNode ''Created By Me'' False))
        (attached staleManager)
       = (Inr [PRCategoryActionNode Empty], attached staleManager)
   \<and> getChildren desktopEnv None (attached staleManager)
       = resolveRoots desktopEnv staleManager (attached staleManager)"
proof -
  have h1: "prManager (attached staleManager) = Some staleManager"
    by (rule attached_fields)
  have h2: "state staleManager \<noteq> Initializing"
    by (simp add: staleManager_def)
  have h3: "\<exists>m\<in>set (folderManagers staleManager). gitHubRemotes m \<noteq> []"
    by (simp add: staleManager_def staleFolder_def)
  have h4: "\<forall>m\<in>set (folderManagers staleManager). repositoryRemotes m = []"
    by (simp add: staleManager_def staleFolder_def)
  have m: "concat (map gitHubRemotes (folderManagers staleManager)) = [''origin'']"
          "concat (map repositoryRemotes (folderManagers staleManager)) = []"
    by (simp_all add: staleManager_def staleFolder_def)
  from getChildren_Empty_below_root
         [OF h1 h2 h3 h4, of desktopEnv "CategoryTreeNode ''Created By Me'' False"]
       h1 h2 m
  show ?thesis by blast
qed

text \<open>
  Claim C5, as stated, fails twice. While the manager is \<open>Initializing\<close>, two folder
  managers of which one reports a GitHub remote give the single \<open>Initializing\<close>
  placeholder, not two folder nodes. And with one folder manager that reports a GitHub
  remote, on a host whose address resolution rejects, the root-level pass fails with
  that rejection and returns no nodes.
\<close>

theorem getChildren_roots_by_folder_count_counterexample:
  "prManager (attached startingManager) = Some startingManager
   \<and> concat (map gitHubRemotes (folderManagers startingManager)) = [''origin'']
   \<and> fst (getChildren desktopEnv None (attached startingManager))
       = Inr [PRCategoryActionNode InitializingAction]
   \<and> prManager (attached singleManager) = Some singleManager
   \<and> concat (map gitHubRemotes (folderManagers singleManager)) = [''origin'']
   \<and> fst (getChildren offlineEnv None (attached singleManager)) = Inl (Rejected ''tunnel'')"
  by (simp add: attached_def startingManager_def singleManager_def appFolder_def notesFolder_def
      desktopEnv_def offlineEnv_def constructor_def initialize_def initializeCategories_def
      refresh_def getChildren_def resolveRoots_def disposeChildren_def
      isVSO_def Let_def)

text \<open>
  Claim C5, amended. With a manager attached whose state is not \<open>Initializing\<close>, at least
  one folder manager reporting a GitHub remote, and the environment classification
  resolving to \<open>v\<close> (from the cache or from the resolution): with exactly one folder
  manager the root-level pass answers with what that folder's category builder answers
  for it and \<open>v\<close>, not wrapped in a folder node; with any other number \<open>N\<close> (which is then
  more than one) it answers with \<open>N\<close> folder nodes, one per folder manager, in the order
  of the manager's list.
\<close>

theorem getChildren_roots_by_folder_count:
  assumes "prManager s = Some pm"
      and "state pm \<noteq> Initializing"
      and "\<exists>m\<in>set (folderManagers pm). gitHubRemotes m \<noteq> []"
      and "fst (isVSO env s) = Inr v"
    shows "fst (getChildren env None s) =
             (if length (folderManagers pm) = 1
              then getCategoryTreeNodes env (folderManagers pm ! 0) v
              else Inr (map (\<lambda>folderManager.
                               WorkspaceFolderNode (rootUri folderManager) folderManager v)
                            (folderManagers pm)))"
  by (simp only: getChildren_past_gates(1) [OF assms(1,2,3)] resolveRoots_result [OF assms(4)])

text \<open>A workspace of one folder and a workspace of two, on a desktop host.\<close>

theorem getChildren_roots_by_folder_count_witness:
  "prManager (attached singleManager) = Some singleManager
   \<and> state singleManager \<noteq> Initializing
   \<and> concat (map gitHubRemotes (folderManagers singleManager)) = [''origin'']
   \<and> fst (isVSO desktopEnv (attached singleManager)) = Inr False
   \<and> fst (getChildren desktopEnv None (attached singleManager)) = Inr categories
   \<and> prManager (attached mixedManager) = Some mixedManager
   \<and> state mixedManager \<noteq> Initializing
   \<and> concat (map gitHubRemotes (folderManagers mixedManager)) = [''origin'']
   \<and> fst (isVSO desktopEnv (attached mixedManager)) = Inr False
   \<and> fst (getChildren desktopEnv None (attached mixedManager))
       = Inr [WorkspaceFolderNode ''file:///work/app'' appFolder False,
              WorkspaceFolderNode ''file:///work/notes'' notesFolder False]"
proof -
  have a1: "prManager (attached singleManager) = Some singleManager"
    by (rule attached_fields)
  have a2: "state singleManager \<noteq> Initializing"
    by (simp add: singleManager_def)
  have a3: "\<exists>m\<in>set (folderManagers singleManager). gitHubRemotes m \<noteq> []"
    by (simp add: singleManager_def appFolder_def)
  have a4: "fst (isVSO desktopEnv (attached singleManager)) = Inr False"
    by (simp add: attached_fields isVSO_def desktopEnv_def endsWith_def Let_def)
  have b1: "prManager (attached mixedManager) = Some mixedManager"
    by (rule attached_fields)
  have b2: "state mixedManager \<noteq> Initializing"
    by (simp add: mixedManager_def)
  have b3: "\<exists>m\<in>set (folderManagers mixedManager). gitHubRemotes m \<noteq> []"
    by (simp add: mixedManager_def appFolder_def)
  have b4: "fst (isVSO desktopEnv (attached mixedManager)) = Inr False"
    by (simp add: attached_fields isVSO_def desktopEnv_def endsWith_def Let_def)
  have c: "getCategoryTreeNodes desktopEnv (folderManagers singleManager ! 0) False
             = Inr categories"
    by (simp add: desktopEnv_def)
  have d: "folderManagers singleManager = [appFolder]"
          "folderManagers mixedManager = [appFolder, notesFolder]"
          "rootUri appFolder = ''file:///work/app''"
          "rootUri notesFolder = ''file:///work/notes''"
    by (simp_all add: singleManager_def mixedManager_def appFolder_def notesFolder_def)
  have m: "concat (map gitHubRemotes (folderManagers singleManager)) = [''origin'']"
          "concat (map gitHubRemotes (folderManagers mixedManager)) = [''origin'']"
    by (simp_all add: singleManager_def mixedManager_def appFolder_def notesFolder_def)
  from getChildren_roots_by_folder_count [OF a1 a2 a3 a4]
       getChildren_roots_by_folder_count [OF b1 b2 b3 b4]
       a1 a2 a4 b1 b2 b4 c d m
  show ?thesis by simp
qed

text \<open>
  Claim C4, as stated, fails. In the workspace of the claim (two folder managers, one
  with a GitHub remote, one without any remote, repositories loaded), on a host whose
  address resolution rejects, the root-level pass goes past the remote guard and then
  fails with that rejection: it yields no folder nodes.
\<close>

theorem getChildren_mixed_folders_counterexample:
  "prManager (attached mixedManager) = Some mixedManager
   \<and> state mixedManager = RepositoriesLoaded
   \<and> folderManagers mixedManager = [appFolder, notesFolder]
   \<and> gitHubRemotes appFolder = [''origin''] \<and> repositoryRemotes appFolder = [''origin'']
   \<and> gitHubRemotes notesFolder = [] \<and> repositoryRemotes notesFolder = []
   \<and> fst (getChildren offlineEnv None (attached mixedManager)) = Inl (Rejected ''tunnel'')"
  by (simp add: attached_def mixedManager_def appFolder_def notesFolder_def
      desktopEnv_def offlineEnv_def constructor_def initialize_def initializeCategories_def
      refresh_def getChildren_def resolveRoots_def disposeChildren_def
      isVSO_def Let_def)

text \<open>
  Claim C4, amended. In a workspace of two folder managers, in either order, one whose
  manager reports a GitHub remote and whose repository state lists a remote, the other
  with no remote of either kind, with the repositories loaded: the root-level pass goes
  past the remote guard and, provided the environment classification resolves to \<open>v\<close>,
  answers with exactly two folder nodes, one per folder manager; and, whether the
  classification resolves or not, \<open>getChildren\<close> on any element, one under the folder
  without remotes included, answers with what the element's own \<open>getChildren\<close> answers and
  leaves the provider unchanged, not with the \<open>Empty\<close> placeholder of line 183.
\<close>

theorem getChildren_mixed_folders:
  assumes "prManager s = Some pm"
      and "state pm = RepositoriesLoaded"
      and "folderManagers pm = [a, b] \<or> folderManagers pm = [b, a]"
      and "gitHubRemotes a \<noteq> []" and "repositoryRemotes a \<noteq> []"
      and "gitHubRemotes b = []" and "repositoryRemotes b = []"
    shows "(fst (isVSO env s) = Inr v \<longrightarrow>
              fst (getChildren env None s)
                = Inr (map (\<lambda>folderManager.
                              WorkspaceFolderNode (rootUri folderManager) folderManager v)
                           (folderManagers pm)))
         \<and> length (folderManagers pm) = 2
         \<and> getChildren env (Some el) s = (nodeGetChildren env el, s)"
proof -
  from assms(2) have ni: "state pm \<noteq> Initializing" by simp
  from assms(3,4) have gh: "\<exists>m\<in>set (folderManagers pm). gitHubRemotes m \<noteq> []" by auto
  from assms(3,5) have rr: "\<not> (\<forall>m\<in>set (folderManagers pm). repositoryRemotes m = [])"
    by auto
  from assms(3) have len: "length (folderManagers pm) = 2" by auto
  have root: "fst (getChildren env None s)
                = Inr (map (\<lambda>folderManager.
                              WorkspaceFolderNode (rootUri folderManager) folderManager v)
                           (folderManagers pm))"
    if resolves: "fst (isVSO env s) = Inr v"
  proof -
    have "fst (getChildren env None s) = fst (resolveRoots env pm s)"
      by (simp add: getChildren_past_gates(1) [OF assms(1) ni gh])
    also have "\<dots> = Inr (map (\<lambda>folderManager.
                             WorkspaceFolderNode (rootUri folderManager) folderManager v)
                          (folderManagers pm))"
      using len by (simp add: resolveRoots_result [OF resolves])
    finally show ?thesis .
  qed
  have "getChildren env (Some el) s = (nodeGetChildren env el, s)"
    using rr by (auto simp add: getChildren_past_gates(2) [OF assms(1) ni gh])
  with root len show ?thesis by simp
qed

text \<open>
  The workspace of the claim: on a desktop host the classification resolves and the root
  is the two folder nodes; on a host whose address resolution rejects, the children of
  the node of the folder without remotes are still that node's own.
\<close>

theorem getChildren_mixed_folders_witness:
  "prManager (attached mixedManager) = Some mixedManager
   \<and> state mixedManager = RepositoriesLoaded
   \<and> folderManagers mixedManager = [appFolder, notesFolder]
   \<and> gitHubRemotes appFolder \<noteq> [] \<and> repositoryRemotes appFolder \<noteq> []
   \<and> gitHubRemotes notesFolder = [] \<and> repositoryRemotes notesFolder = []
   \<and> fst (isVSO desktopEnv (attached mixedManager)) = Inr False
   \<and> fst (getChildren desktopEnv None (attached mixedManager))
       = Inr [WorkspaceFolderNode (rootUri appFolder) appFolder False,
              WorkspaceFolderNode (rootUri notesFolder) notesFolder False]
   \<and> getChildren desktopEnv
        (Some (WorkspaceFolderNode (rootUri notesFolder) notesFolder False))
        (attached mixedManager)
       = (nodeGetChildren desktopEnv
            (WorkspaceFolderNode (rootUri notesFolder) notesFolder False),
          attached mixedManager)
   \<and> fst (isVSO offlineEnv (attached mixedManager)) = Inl (Rejected ''tunnel'')
   \<and> getChildren offlineEnv
        (Some (WorkspaceFolderNode (rootUri notesFolder) notesFolder False))
        (attached mixedManager)
       = (nodeGetChildren offlineEnv
            (WorkspaceFolderNode (rootUri notesFolder) notesFolder False),
          attached mixedManager)"
proof -
  have h1: "prManager (attached mixedManager) = Some mixedManager"
    by (rule attached_fields)
  have h2: "state mixedManager = RepositoriesLoaded"
    by (simp add: mixedManager_def)
  have h3: "folderManagers mixedManager = [appFolder, notesFolder]"
    by (simp add: mixedManager_def)
  then have h3': "folderManagers mixedManager = [appFolder, notesFolder]
                \<or> folderManagers mixedManager = [notesFolder, appFolder]" ..
  have h4: "gitHubRemotes appFolder \<noteq> []" and h5: "repositoryRemotes appFolder \<noteq> []"
    by (simp_all add: appFolder_def)
  have h6: "gitHubRemotes notesFolder = []" and h7: "repositoryRemotes notesFolder = []"
    by (simp_all add: notesFolder_def)
  have h8: "fst (isVSO desktopEnv (attached mixedManager)) = Inr False"
    by (simp add: attached_fields isVSO_def desktopEnv_def endsWith_def Let_def)
  have h9: "fst (isVSO offlineEnv (attached mixedManager)) = Inl (Rejected ''tunnel'')"
    by (simp add: attached_fields isVSO_def offlineEnv_def desktopEnv_def Let_def)
  from getChildren_mixed_folders [OF h1 h2 h3' h4 h5 h6 h7,
         of desktopEnv False "WorkspaceFolderNode (rootUri notesFolder) notesFolder False"]
       getChildren_mixed_folders [OF h1 h2 h3' h4 h5 h6 h7,
         of offlineEnv False "WorkspaceFolderNode (rootUri notesFolder) notesFolder False"]
       h1 h2 h3 h4 h5 h6 h7 h8 h9
  show ?thesis by simp
qed

subsection \<open>The tracked children\<close>

text \<open>
  Claim C9. A root-level pass that answers with placeholders (no manager attached, state
  \<open>Initializing\<close>, or no GitHub remote) disposes nothing and leaves the tracked list as
  it was; and a call of \<open>getChildren\<close> that does dispose something is a root-level pass
  that is past those three guards.
\<close>

theorem getChildren_placeholder_keeps_children:
  "(returnsPlaceholder s \<longrightarrow>
      disposeLog (snd (getChildren env None s)) = disposeLog s
      \<and> childrenDisposables (snd (getChildren env None s)) = childrenDisposables s)
   \<and> (disposeLog (snd (getChildren env element s)) \<noteq> disposeLog s \<longrightarrow>
        element = None \<and> \<not> returnsPlaceholder s)"
  by (auto simp add: getChildren_def returnsPlaceholder_def split: option.splits)

text \<open>
  A provider that tracks two folder nodes: a pass while the manager is initializing keeps
  them, the next pass into the real subtree disposes them.
\<close>

theorem getChildren_placeholder_keeps_children_witness:
  "returnsPlaceholder (trackedProvider\<lparr>prManager := Some startingManager\<rparr>)
   \<and> childrenDisposables (trackedProvider\<lparr>prManager := Some startingManager\<rparr>) \<noteq> []
   \<and> disposeLog (snd (getChildren desktopEnv None
                        (trackedProvider\<lparr>prManager := Some startingManager\<rparr>)))
       = disposeLog (trackedProvider\<lparr>prManager := Some startingManager\<rparr>)
   \<and> childrenDisposables (snd (getChildren desktopEnv None
                                 (trackedProvider\<lparr>prManager := Some startingManager\<rparr>)))
       = childrenDisposables (trackedProvider\<lparr>prManager := Some startingManager\<rparr>)
   \<and> disposeLog (snd (getChildren desktopEnv None trackedProvider))
       \<noteq> disposeLog trackedProvider
   \<and> \<not> returnsPlaceholder trackedProvider"
proof -
  have h1: "returnsPlaceholder (trackedProvider\<lparr>prManager := Some startingManager\<rparr>)"
    by (simp add: returnsPlaceholder_def startingManager_def)
  have h2: "childrenDisposables (trackedProvider\<lparr>prManager := Some startingManager\<rparr>) \<noteq> []"
    by (simp add: trackedProvider_def attached_def mixedManager_def appFolder_def
        notesFolder_def desktopEnv_def constructor_def initialize_def
        initializeCategories_def refresh_def getChildren_def resolveRoots_def
        disposeChildren_def isVSO_def endsWith_def Let_def)
  have h3: "disposeLog (snd (getChildren desktopEnv None trackedProvider))
              \<noteq> disposeLog trackedProvider"
    by (simp add: trackedProvider_def attached_def mixedManager_def appFolder_def
        notesFolder_def desktopEnv_def constructor_def initialize_def
        initializeCategories_def refresh_def getChildren_def resolveRoots_def
        disposeChildren_def isVSO_def endsWith_def Let_def)
  from getChildren_placeholder_keeps_children
         [of "trackedProvider\<lparr>prManager := Some startingManager\<rparr>" desktopEnv None]
       getChildren_placeholder_keeps_children [of trackedProvider desktopEnv None]
       h1 h2 h3
  show ?thesis by blast
qed

text \<open>
  Claim C2 at a workspace of one folder. Three root-level passes return the folder's
  category nodes three times; the tracked list stays empty and nothing is ever disposed,
  so the nodes of the first pass are released zero times: line 172 returns before
  line 178 records them. And once two folder nodes are tracked and the workspace has
  gone down to one folder, each of the next two passes disposes those same two nodes.
\<close>

theorem rootPasses_single_folder_never_installs:
  "fst (rootPasses desktopEnv 3 (attached singleManager))
     = [Inr categories, Inr categories, Inr categories]
   \<and> childrenDisposables (snd (rootPasses desktopEnv 3 (attached singleManager))) = []
   \<and> disposeLog (snd (rootPasses desktopEnv 3 (attached singleManager))) = []
   \<and> childrenDisposables trackedProvider
       = [NodeDisposable (WorkspaceFolderNode ''file:///work/app'' appFolder False),
          NodeDisposable (WorkspaceFolderNode ''file:///work/notes'' notesFolder False)]
   \<and> disposeLog trackedProvider = []
   \<and> disposeLog (snd (rootPasses desktopEnv 2
                        (trackedProvider\<lparr>prManager := Some singleManager\<rparr>)))
       = childrenDisposables trackedProvider @ childrenDisposables trackedProvider"
  by (simp add: eval_nat_numeral attached_def trackedProvider_def singleManager_def
      mixedManager_def appFolder_def notesFolder_def desktopEnv_def constructor_def
      initialize_def initializeCategories_def refresh_def getChildren_def resolveRoots_def
      disposeChildren_def isVSO_def endsWith_def Let_def)

end
